theory Spec2Isabelle
  imports Main "HOL-Library.AList"
begin

section \<open>Data model of the permission middleware\<close>

text \<open>
  The types \<open>UserRole\<close>, \<open>Region\<close> and \<open>PropertyType\<close> are imported by
  \<^verbatim>\<open>PermissionMiddleware.ts\<close> from the types module; \<open>Region\<close> and \<open>PropertyType\<close>
  are the string enums of \<^verbatim>\<open>MatrixDataStructure.ts\<close>, and \<open>ResourceType\<close> and
  \<open>ActionType\<close> are declared in the middleware itself. An enum is a datatype here, and
  the function \<open>*_str\<close> gives the string each member is at run time. The member
  \<open>EXPORT\<close> occurs in two enums and is written with its enum's name.

  The middleware writes a role as its string (\<open>'admin'\<close>, \<open>'researcher'\<close>, \<open>'broker'\<close>,
  \<open>'viewer'\<close>) in the rule table and in every comparison, and so does the model: a role
  is the string it is at run time, which also admits a role that no rule names.
\<close>

type_synonym UserRole = string

datatype Region = SOUTH_FLORIDA | CENTRAL_FLORIDA | CAROLINAS | ALL_REGIONS

datatype PropertyType = OFFICE | INDUSTRIAL | ALL_TYPES

datatype ResourceType = BUILDING | SUITE | TENANT | MARKET | ANALYTICS | EXPORT | ADMIN

datatype ActionType = READ | CREATE | UPDATE | DELETE | EXPORT | SHARE

fun Region_str :: "Region \<Rightarrow> string" where
  "Region_str SOUTH_FLORIDA = ''south_florida''"
| "Region_str CENTRAL_FLORIDA = ''central_florida''"
| "Region_str CAROLINAS = ''carolinas''"
| "Region_str ALL_REGIONS = ''all_regions''"

fun PropertyType_str :: "PropertyType \<Rightarrow> string" where
  "PropertyType_str OFFICE = ''office''"
| "PropertyType_str INDUSTRIAL = ''industrial''"
| "PropertyType_str ALL_TYPES = ''all_types''"

fun ResourceType_str :: "ResourceType \<Rightarrow> string" where
  "ResourceType_str BUILDING = ''building''"
| "ResourceType_str SUITE = ''suite''"
| "ResourceType_str TENANT = ''tenant''"
| "ResourceType_str MARKET = ''market''"
| "ResourceType_str ANALYTICS = ''analytics''"
| "ResourceType_str ResourceType.EXPORT = ''export''"
| "ResourceType_str ResourceType.ADMIN = ''admin''"

fun ActionType_str :: "ActionType \<Rightarrow> string" where
  "ActionType_str READ = ''read''"
| "ActionType_str CREATE = ''create''"
| "ActionType_str UPDATE = ''update''"
| "ActionType_str DELETE = ''delete''"
| "ActionType_str ActionType.EXPORT = ''export''"
| "ActionType_str SHARE = ''share''"

text \<open>
  \<open>SessionUser\<close>: the field \<open>id\<close> of the source is \<open>user_id\<close> (\<open>id\<close> is the identity
  function of HOL); \<open>lastActivity\<close> is the date in milliseconds.
\<close>

record SessionUser =
  user_id :: string
  email :: string
  role :: UserRole
  regions :: "Region list"
  propertyTypes :: "PropertyType list"
  assignedBuildings :: "string list"
  universalAccess :: bool
  lastActivity :: int

text \<open>
  The metadata of a resource is a \<open>Record<string, any>\<close>, of which the middleware reads
  the keys \<open>regionId\<close> and \<open>propertyType\<close>; the metadata provider stores strings under
  them. \<open>None\<close> is a key that is not there.
\<close>

record Metadata =
  regionId :: "string option"
  propertyType :: "string option"

record PermissionContext =
  user :: SessionUser
  resource :: ResourceType
  action :: ActionType
  resourceId :: "string option"
  metadata :: "Metadata option"

text \<open>
  JavaScript's truthiness of an optional string: \<open>undefined\<close> and the empty string are
  falsy, every other string is truthy.
\<close>

fun truthy :: "string option \<Rightarrow> bool" where
  "truthy None = False"
| "truthy (Some s) = (s \<noteq> [])"

text \<open>\<open>metadata?.regionId\<close> and \<open>metadata?.propertyType\<close>: optional chaining.\<close>

definition metadata_regionId :: "PermissionContext \<Rightarrow> string option" where
  "metadata_regionId context =
     (case metadata context of None \<Rightarrow> None | Some m \<Rightarrow> regionId m)"

definition metadata_propertyType :: "PermissionContext \<Rightarrow> string option" where
  "metadata_propertyType context =
     (case metadata context of None \<Rightarrow> None | Some m \<Rightarrow> propertyType m)"

section \<open>Permission checking functions\<close>

text \<open>
  \<open>user.regions.includes(metadata.regionId)\<close> compares the members of the array, which
  are strings at run time, with the string of the metadata.
\<close>

definition hasRegionAccess :: "PermissionContext \<Rightarrow> bool" where
  "hasRegionAccess context =
     (if universalAccess (user context) \<or> ALL_REGIONS \<in> set (regions (user context))
      then True
      else if \<not> truthy (metadata_regionId context) then False
      else the (metadata_regionId context) \<in> set (map Region_str (regions (user context))))"

definition hasPropertyTypeAccess :: "PermissionContext \<Rightarrow> bool" where
  "hasPropertyTypeAccess context =
     (if universalAccess (user context) \<or> ALL_TYPES \<in> set (propertyTypes (user context))
      then True
      else if \<not> truthy (metadata_propertyType context) then False
      else the (metadata_propertyType context)
             \<in> set (map PropertyType_str (propertyTypes (user context))))"

definition hasBuildingAccess :: "PermissionContext \<Rightarrow> bool" where
  "hasBuildingAccess context =
     (if role (user context) = ''admin'' \<or> universalAccess (user context) then True
      else if \<not> hasRegionAccess context \<or> \<not> hasPropertyTypeAccess context then False
      else if truthy (resourceId context) \<and> length (assignedBuildings (user context)) > 0
      then the (resourceId context) \<in> set (assignedBuildings (user context))
      else True)"


section \<open>Permission rules configuration\<close>

text \<open>
  A rule of the table; the fields \<open>role\<close> and \<open>resource\<close> of the source are
  \<open>rule_role\<close> and \<open>rule_resource\<close> (the context has fields of these names). The optional
  condition is a function on the context, as in the source.
\<close>

record PermissionRule =
  rule_role :: UserRole
  rule_resource :: ResourceType
  actions :: "ActionType list"
  condition :: "(PermissionContext \<Rightarrow> bool) option"

definition PERMISSION_RULES :: "PermissionRule list" where
  "PERMISSION_RULES =
    [ \<lparr>rule_role = ''admin'', rule_resource = BUILDING,
        actions = [READ, CREATE, UPDATE, DELETE, ActionType.EXPORT, SHARE],
        condition = None\<rparr>,
      \<lparr>rule_role = ''admin'', rule_resource = TENANT,
        actions = [READ, CREATE, UPDATE, DELETE],
        condition = None\<rparr>,
      \<lparr>rule_role = ''admin'', rule_resource = ResourceType.ADMIN,
        actions = [READ, CREATE, UPDATE, DELETE],
        condition = None\<rparr>,
      \<lparr>rule_role = ''researcher'', rule_resource = BUILDING,
        actions = [READ, UPDATE, ActionType.EXPORT],
        condition = Some (\<lambda>ctx. hasRegionAccess ctx \<and> hasPropertyTypeAccess ctx)\<rparr>,
      \<lparr>rule_role = ''researcher'', rule_resource = SUITE,
        actions = [READ, CREATE, UPDATE],
        condition = Some (\<lambda>ctx. hasBuildingAccess ctx)\<rparr>,
      \<lparr>rule_role = ''researcher'', rule_resource = TENANT,
        actions = [READ, CREATE, UPDATE],
        condition = None\<rparr>,
      \<lparr>rule_role = ''broker'', rule_resource = BUILDING,
        actions = [READ, ActionType.EXPORT],
        condition = Some (\<lambda>ctx. hasBuildingAccess ctx)\<rparr>,
      \<lparr>rule_role = ''broker'', rule_resource = SUITE,
        actions = [READ],
        condition = Some (\<lambda>ctx. hasBuildingAccess ctx)\<rparr>,
      \<lparr>rule_role = ''broker'', rule_resource = TENANT,
        actions = [READ],
        condition = None\<rparr>,
      \<lparr>rule_role = ''viewer'', rule_resource = BUILDING,
        actions = [READ],
        condition = Some (\<lambda>ctx. hasBuildingAccess ctx)\<rparr>,
      \<lparr>rule_role = ''viewer'', rule_resource = SUITE,
        actions = [READ],
        condition = Some (\<lambda>ctx. hasBuildingAccess ctx)\<rparr> ]"

text \<open>
  The loop of \<open>checkPermission\<close> over the applicable rules: a rule whose actions do not
  include the action is skipped; a rule with a condition allows when the condition holds
  and is passed over otherwise; a rule with no condition allows. When the rules run out
  the answer is \<open>False\<close>.
\<close>

fun checkPermission_loop :: "PermissionRule list \<Rightarrow> PermissionContext \<Rightarrow> bool" where
  "checkPermission_loop [] context = False"
| "checkPermission_loop (rule # rest) context =
     (if action context \<notin> set (actions rule) then checkPermission_loop rest context
      else (case condition rule of
              Some cond \<Rightarrow> if cond context then True else checkPermission_loop rest context
            | None \<Rightarrow> True))"

definition checkPermission :: "PermissionContext \<Rightarrow> bool" where
  "checkPermission context =
     (let applicableRules =
            filter (\<lambda>rule. rule_role rule = role (user context) \<and>
                            rule_resource rule = resource context) PERMISSION_RULES
      in checkPermission_loop applicableRules context)"

section \<open>Filters for bulk queries\<close>

text \<open>
  The filter object: each of its keys \<open>regionId\<close>, \<open>propertyType\<close> and \<open>id\<close> is absent
  or holds \<open>{ in: ... }\<close>, the list of admitted values.
\<close>

record PermissionFilters =
  filter_regionId :: "Region list option"
  filter_propertyType :: "PropertyType list option"
  filter_id :: "string list option"

definition buildPermissionFilters :: "SessionUser \<Rightarrow> ResourceType \<Rightarrow> PermissionFilters" where
  "buildPermissionFilters u res =
     (let filters = \<lparr>filter_regionId = None, filter_propertyType = None, filter_id = None\<rparr> in
      if role u = ''admin'' \<or> universalAccess u then filters
      else
        let filters1 = (if ALL_REGIONS \<notin> set (regions u)
                        then filters\<lparr>filter_regionId := Some (regions u)\<rparr> else filters);
            filters2 = (if ALL_TYPES \<notin> set (propertyTypes u)
                        then filters1\<lparr>filter_propertyType := Some (propertyTypes u)\<rparr>
                        else filters1);
            filters3 = (if length (assignedBuildings u) > 0 \<and> res = BUILDING
                        then filters2\<lparr>filter_id := Some (assignedBuildings u)\<rparr>
                        else filters2)
        in filters3)"

section \<open>Caching layer\<close>

text \<open>
  The cache is a JavaScript \<open>Map\<close> from key strings to entries: an association list in
  insertion order, read with \<open>map_of\<close>, written with \<open>AList.update\<close> (an existing key
  keeps its place, a new one goes last) and \<open>AList.delete\<close>. \<open>Date.now()\<close> is a
  parameter of every operation that reads the clock.
\<close>

record CacheEntry =
  result :: bool
  timestamp :: int

type_synonym PermissionCache = "(string \<times> CacheEntry) list"

definition TTL :: int where
  "TTL = 5 * 60 * 1000"

definition getCacheKey :: "PermissionContext \<Rightarrow> string" where
  "getCacheKey context =
     user_id (user context) @ '':'' @ ResourceType_str (resource context) @ '':'' @
     ActionType_str (action context) @ '':'' @
     (if truthy (resourceId context) then the (resourceId context) else [])"

definition cache_get ::
  "PermissionCache \<Rightarrow> int \<Rightarrow> PermissionContext \<Rightarrow> bool option \<times> PermissionCache" where
  "cache_get cache now context =
     (let key = getCacheKey context in
      case map_of cache key of
        None \<Rightarrow> (None, cache)
      | Some cached \<Rightarrow>
          if now - timestamp cached > TTL then (None, AList.delete key cache)
          else (Some (result cached), cache))"

definition cache_set ::
  "PermissionCache \<Rightarrow> int \<Rightarrow> PermissionContext \<Rightarrow> bool \<Rightarrow> PermissionCache" where
  "cache_set cache now context res =
     (let key = getCacheKey context in
      AList.update key \<lparr>result = res, timestamp = now\<rparr> cache)"

fun startsWith :: "string \<Rightarrow> string \<Rightarrow> bool" where
  "startsWith s [] = True"
| "startsWith [] (p # ps) = False"
| "startsWith (c # s) (p # ps) = (c = p \<and> startsWith s ps)"

text \<open>
  \<open>invalidateUser\<close> walks the keys of the map and deletes each key that starts with the
  user's id and a colon.
\<close>

definition invalidateUser :: "PermissionCache \<Rightarrow> string \<Rightarrow> PermissionCache" where
  "invalidateUser cache userId =
     fold (\<lambda>key c. if startsWith key (userId @ '':'') then AList.delete key c else c)
          (map fst cache) cache"

definition cache_clear :: "PermissionCache \<Rightarrow> PermissionCache" where
  "cache_clear cache = []"

text \<open>
  \<open>checkPermissionWithCache\<close> on the module's cache: \<open>now_get\<close> is the clock when
  \<open>get\<close> reads it, \<open>now_set\<close> the clock when \<open>set\<close> does. The result is the decision
  and the cache afterwards.
\<close>

definition checkPermissionWithCache ::
  "PermissionCache \<Rightarrow> int \<Rightarrow> int \<Rightarrow> PermissionContext \<Rightarrow> bool \<times> PermissionCache" where
  "checkPermissionWithCache cache now_get now_set context =
     (case cache_get cache now_get context of
        (Some cached, cache1) \<Rightarrow> (cached, cache1)
      | (None, cache1) \<Rightarrow>
          (let res = checkPermission context in (res, cache_set cache1 now_set context res)))"

section \<open>Audit logging\<close>

record AuditLog =
  log_userId :: string
  log_userEmail :: string
  log_action :: string
  log_resource :: string
  log_resourceId :: "string option"
  log_granted :: bool
  log_timestamp :: int
  log_metadata :: "Metadata option"

text \<open>
  What the audit functions write: \<open>console.warn\<close> of a log record by
  \<open>logPermissionDenied\<close>, and \<open>console.error\<close> of the security alert, the one effect of
  \<open>alertSecurityTeam\<close>. The console is the list of these events, oldest first.
\<close>

datatype ConsoleEvent = ConsoleWarn AuditLog | SecurityAlert PermissionContext

definition isSupiciousActivity :: "PermissionContext \<Rightarrow> bool" where
  "isSupiciousActivity context =
     (resource context = ResourceType.ADMIN \<and> role (user context) \<noteq> ''admin'')"

definition alertSecurityTeam :: "PermissionContext \<Rightarrow> ConsoleEvent list \<Rightarrow> ConsoleEvent list" where
  "alertSecurityTeam context console = console @ [SecurityAlert context]"

definition logPermissionDenied ::
  "int \<Rightarrow> PermissionContext \<Rightarrow> ConsoleEvent list \<Rightarrow> ConsoleEvent list" where
  "logPermissionDenied now context console =
     (let log = \<lparr>log_userId = user_id (user context),
                 log_userEmail = email (user context),
                 log_action = ActionType_str (action context),
                 log_resource = ResourceType_str (resource context),
                 log_resourceId = resourceId context,
                 log_granted = False,
                 log_timestamp = now,
                 log_metadata = metadata context\<rparr>;
          console1 = console @ [ConsoleWarn log]
      in if isSupiciousActivity context then alertSecurityTeam context console1
         else console1)"

text \<open>The number of escalations written so far.\<close>

fun escalations :: "ConsoleEvent list \<Rightarrow> nat" where
  "escalations [] = 0"
| "escalations (SecurityAlert c # es) = Suc (escalations es)"
| "escalations (ConsoleWarn l # es) = escalations es"


section \<open>Example identities and contexts\<close>

text \<open>
  The broker is the identity that \<open>loadUserPermissions\<close> returns; the metadata is the
  record that \<open>getResourceMetadata\<close> returns for a building.
\<close>

definition broker_user :: SessionUser where
  "broker_user =
     \<lparr>user_id = ''u1'', email = ''user@example.com'', role = ''broker'',
      regions = [SOUTH_FLORIDA, CENTRAL_FLORIDA], propertyTypes = [OFFICE],
      assignedBuildings = [''building_123'', ''building_456''],
      universalAccess = False, lastActivity = 0\<rparr>"

definition viewer_user :: SessionUser where
  "viewer_user =
     \<lparr>user_id = ''u2'', email = ''viewer@example.com'', role = ''viewer'',
      regions = [ALL_REGIONS], propertyTypes = [ALL_TYPES],
      assignedBuildings = [''building_789''],
      universalAccess = False, lastActivity = 0\<rparr>"

definition executive_user :: SessionUser where
  "executive_user =
     \<lparr>user_id = ''u3'', email = ''executive@example.com'', role = ''researcher'',
      regions = [], propertyTypes = [], assignedBuildings = [],
      universalAccess = True, lastActivity = 0\<rparr>"

definition admin_user :: SessionUser where
  "admin_user =
     \<lparr>user_id = ''u4'', email = ''admin@example.com'', role = ''admin'',
      regions = [ALL_REGIONS], propertyTypes = [ALL_TYPES], assignedBuildings = [],
      universalAccess = True, lastActivity = 0\<rparr>"

definition office_metadata :: Metadata where
  "office_metadata = \<lparr>regionId = Some ''south_florida'', propertyType = Some ''office''\<rparr>"

definition carolinas_metadata :: Metadata where
  "carolinas_metadata = \<lparr>regionId = Some ''carolinas'', propertyType = Some ''office''\<rparr>"

definition mk_context ::
  "SessionUser \<Rightarrow> ResourceType \<Rightarrow> ActionType \<Rightarrow> string option \<Rightarrow> Metadata option
     \<Rightarrow> PermissionContext" where
  "mk_context u res act rid md =
     \<lparr>user = u, resource = res, action = act, resourceId = rid, metadata = md\<rparr>"

text \<open>
  A cache with one decision for the broker, stored at time 1000, and one for the viewer,
  stored at time 2000.
\<close>

definition example_cache :: PermissionCache where
  "example_cache =
     cache_set
       (cache_set [] 1000
          (mk_context broker_user BUILDING READ (Some ''building_999'') (Some office_metadata))
          True)
       2000 (mk_context viewer_user SUITE READ (Some ''building_789'') None) True"

section \<open>Scope predicates\<close>

lemma Region_str_nonempty: "Region_str r \<noteq> []" "[] \<noteq> Region_str r"
  by (cases r; simp)+

lemma PropertyType_str_nonempty: "PropertyType_str p \<noteq> []" "[] \<noteq> PropertyType_str p"
  by (cases p; simp)+

lemma hasRegionAccess_iff:
  "hasRegionAccess context =
     (universalAccess (user context) \<or> ALL_REGIONS \<in> set (regions (user context)) \<or>
      (\<exists>m t. metadata context = Some m \<and> regionId m = Some t \<and>
             t \<in> set (map Region_str (regions (user context)))))"
proof (cases "metadata context")
  case None
  then show ?thesis by (simp add: hasRegionAccess_def metadata_regionId_def)
next
  case (Some m)
  show ?thesis
  proof (cases "regionId m")
    case None
    with Some show ?thesis by (simp add: hasRegionAccess_def metadata_regionId_def)
  next
    case (Some t)
    with \<open>metadata context = Some m\<close> show ?thesis
      by (auto simp: hasRegionAccess_def metadata_regionId_def Region_str_nonempty)
  qed
qed

lemma hasPropertyTypeAccess_iff:
  "hasPropertyTypeAccess context =
     (universalAccess (user context) \<or> ALL_TYPES \<in> set (propertyTypes (user context)) \<or>
      (\<exists>m t. metadata context = Some m \<and> propertyType m = Some t \<and>
             t \<in> set (map PropertyType_str (propertyTypes (user context)))))"
proof (cases "metadata context")
  case None
  then show ?thesis by (simp add: hasPropertyTypeAccess_def metadata_propertyType_def)
next
  case (Some m)
  show ?thesis
  proof (cases "propertyType m")
    case None
    with Some show ?thesis by (simp add: hasPropertyTypeAccess_def metadata_propertyType_def)
  next
    case (Some t)
    with \<open>metadata context = Some m\<close> show ?thesis
      by (auto simp: hasPropertyTypeAccess_def metadata_propertyType_def
            PropertyType_str_nonempty)
  qed
qed

text \<open>
  C4. \<open>hasRegionAccess\<close> is true exactly when the identity has universal access, or its
  regions contain the wildcard \<open>all_regions\<close>, or its regions contain the region tag of
  the metadata; \<open>hasPropertyTypeAccess\<close> is the same over the property types, the wildcard
  \<open>all_types\<close> and the property type of the metadata. With universal access both hold
  whatever the metadata is, also when there is none. When the metadata or its tag is
  absent and neither universal access nor the wildcard applies, the answer is false.
\<close>

theorem scope_predicates_characterisation:
  "(hasRegionAccess context =
      (universalAccess (user context) \<or> ALL_REGIONS \<in> set (regions (user context)) \<or>
       (\<exists>m t. metadata context = Some m \<and> regionId m = Some t \<and>
              t \<in> set (map Region_str (regions (user context)))))) \<and>
   (hasPropertyTypeAccess context =
      (universalAccess (user context) \<or> ALL_TYPES \<in> set (propertyTypes (user context)) \<or>
       (\<exists>m t. metadata context = Some m \<and> propertyType m = Some t \<and>
              t \<in> set (map PropertyType_str (propertyTypes (user context)))))) \<and>
   (universalAccess (user context) \<longrightarrow>
      hasRegionAccess context \<and> hasPropertyTypeAccess context) \<and>
   (\<not> universalAccess (user context) \<and> ALL_REGIONS \<notin> set (regions (user context)) \<and>
    metadata_regionId context = None \<longrightarrow> \<not> hasRegionAccess context) \<and>
   (\<not> universalAccess (user context) \<and> ALL_TYPES \<notin> set (propertyTypes (user context)) \<and>
    metadata_propertyType context = None \<longrightarrow> \<not> hasPropertyTypeAccess context)"
proof -
  have "hasRegionAccess context \<and> hasPropertyTypeAccess context"
    if "universalAccess (user context)"
    using that by (simp add: hasRegionAccess_def hasPropertyTypeAccess_def)
  moreover have "\<not> hasRegionAccess context"
    if "\<not> universalAccess (user context)" "ALL_REGIONS \<notin> set (regions (user context))"
      "metadata_regionId context = None"
    using that by (simp add: hasRegionAccess_def)
  moreover have "\<not> hasPropertyTypeAccess context"
    if "\<not> universalAccess (user context)" "ALL_TYPES \<notin> set (propertyTypes (user context))"
      "metadata_propertyType context = None"
    using that by (simp add: hasPropertyTypeAccess_def)
  ultimately show ?thesis
    using hasRegionAccess_iff [of "context"] hasPropertyTypeAccess_iff [of "context"]
    by blast
qed

theorem scope_predicates_characterisation_witness:
  "hasRegionAccess (mk_context executive_user BUILDING READ None None) \<and>
   hasPropertyTypeAccess (mk_context executive_user BUILDING READ None None) \<and>
   \<not> hasRegionAccess (mk_context broker_user BUILDING READ (Some ''building_123'') None) \<and>
   \<not> hasPropertyTypeAccess (mk_context broker_user BUILDING READ (Some ''building_123'') None) \<and>
   hasRegionAccess
     (mk_context broker_user BUILDING READ (Some ''building_123'') (Some office_metadata))"
  using
    scope_predicates_characterisation
      [of "mk_context executive_user BUILDING READ None None"]
    scope_predicates_characterisation
      [of "mk_context broker_user BUILDING READ (Some ''building_123'') None"]
    scope_predicates_characterisation
      [of "mk_context broker_user BUILDING READ (Some ''building_123'') (Some office_metadata)"]
  by (simp add: mk_context_def executive_user_def broker_user_def office_metadata_def
      metadata_regionId_def metadata_propertyType_def)

section \<open>Building access\<close>

text \<open>
  C3, as amended. \<open>hasBuildingAccess\<close> is true for every identity with role admin or with
  universal access. For every other identity it is true exactly when \<open>hasRegionAccess\<close>
  and \<open>hasPropertyTypeAccess\<close> both hold and, when a non-empty resource id is supplied
  and \<open>assignedBuildings\<close> is non-empty, the resource id is a member of
  \<open>assignedBuildings\<close>. When \<open>assignedBuildings\<close> is empty, or the resource id is absent
  or the empty string, region and property type alone decide.
\<close>

theorem hasBuildingAccess_characterisation:
  "hasBuildingAccess context =
     (role (user context) = ''admin'' \<or> universalAccess (user context) \<or>
      (hasRegionAccess context \<and> hasPropertyTypeAccess context \<and>
       (\<forall>r. resourceId context = Some r \<and> r \<noteq> [] \<and>
            assignedBuildings (user context) \<noteq> []
            \<longrightarrow> r \<in> set (assignedBuildings (user context)))))"
  by (cases "resourceId context") (auto simp: hasBuildingAccess_def)

theorem hasBuildingAccess_characterisation_witness:
  "hasBuildingAccess
     (mk_context broker_user BUILDING READ (Some ''building_123'') (Some office_metadata)) \<and>
   \<not> hasBuildingAccess
     (mk_context broker_user BUILDING READ (Some ''building_999'') (Some office_metadata)) \<and>
   \<not> hasBuildingAccess
     (mk_context broker_user BUILDING READ (Some ''building_123'') (Some carolinas_metadata)) \<and>
   hasBuildingAccess (mk_context admin_user SUITE READ (Some ''building_999'') None)"
  using
    hasBuildingAccess_characterisation
      [of "mk_context broker_user BUILDING READ (Some ''building_123'') (Some office_metadata)"]
    hasBuildingAccess_characterisation
      [of "mk_context broker_user BUILDING READ (Some ''building_999'') (Some office_metadata)"]
    hasBuildingAccess_characterisation
      [of "mk_context broker_user BUILDING READ (Some ''building_123'')
             (Some carolinas_metadata)"]
    hasBuildingAccess_characterisation
      [of "mk_context admin_user SUITE READ (Some ''building_999'') None"]
  by (simp add: mk_context_def broker_user_def admin_user_def office_metadata_def
      carolinas_metadata_def hasRegionAccess_def hasPropertyTypeAccess_def
      metadata_regionId_def metadata_propertyType_def)

text \<open>
  C3 as stated fails: the broker's regions and property types admit the building, a
  resource id is supplied (the empty string), \<open>assignedBuildings\<close> is non-empty and the
  resource id is not a member of it, and \<open>hasBuildingAccess\<close> is true.
\<close>

theorem hasBuildingAccess_empty_resourceId_counterexample:
  "role (user (mk_context broker_user BUILDING READ (Some []) (Some office_metadata)))
     \<noteq> ''admin'' \<and>
   \<not> universalAccess
       (user (mk_context broker_user BUILDING READ (Some []) (Some office_metadata))) \<and>
   resourceId (mk_context broker_user BUILDING READ (Some []) (Some office_metadata))
     = Some [] \<and>
   assignedBuildings
     (user (mk_context broker_user BUILDING READ (Some []) (Some office_metadata))) \<noteq> [] \<and>
   [] \<notin> set (assignedBuildings
               (user (mk_context broker_user BUILDING READ (Some []) (Some office_metadata)))) \<and>
   hasBuildingAccess (mk_context broker_user BUILDING READ (Some []) (Some office_metadata))"
  by (simp add: mk_context_def broker_user_def office_metadata_def hasBuildingAccess_def
      hasRegionAccess_def hasPropertyTypeAccess_def metadata_regionId_def
      metadata_propertyType_def)

text \<open>
  C9. For an identity that is not an admin and has no universal access, whose
  \<open>assignedBuildings\<close> is non-empty and whose region and property-type checks pass,
  \<open>hasBuildingAccess\<close> is true when the resource id is the empty string, as it is when
  the resource id is absent: the membership check is skipped for a falsy resource id.
\<close>

theorem hasBuildingAccess_falsy_resourceId:
  assumes "role (user context) \<noteq> ''admin''"
    and "\<not> universalAccess (user context)"
    and "assignedBuildings (user context) \<noteq> []"
    and "hasRegionAccess context"
    and "hasPropertyTypeAccess context"
    and "resourceId context = Some [] \<or> resourceId context = None"
  shows "hasBuildingAccess context"
  using assms by (auto simp: hasBuildingAccess_def)

theorem hasBuildingAccess_falsy_resourceId_witness:
  "hasBuildingAccess (mk_context viewer_user SUITE READ (Some []) None) \<and>
   [] \<notin> set (assignedBuildings (user (mk_context viewer_user SUITE READ (Some []) None))) \<and>
   hasBuildingAccess (mk_context viewer_user SUITE READ None None)"
  using
    hasBuildingAccess_falsy_resourceId [of "mk_context viewer_user SUITE READ (Some []) None"]
    hasBuildingAccess_falsy_resourceId [of "mk_context viewer_user SUITE READ None None"]
  by (simp add: mk_context_def viewer_user_def hasRegionAccess_def hasPropertyTypeAccess_def)


section \<open>Rule evaluation\<close>

lemma checkPermission_loop_iff:
  "checkPermission_loop rules context =
     (\<exists>rule \<in> set rules. action context \<in> set (actions rule) \<and>
        (case condition rule of None \<Rightarrow> True | Some cond \<Rightarrow> cond context))"
  by (induction rules) (auto split: option.splits)

text \<open>
  C5. Default deny: \<open>checkPermission\<close> is a total function to the booleans, and it
  returns false whenever no rule of the table has the identity's role and the requested
  resource kind, includes the requested action, and has no condition or a condition that
  holds. So a role that no rule names, a resource kind with no rule for the role, and an
  action outside the action set of every rule for the role and the resource kind, are
  denied.
\<close>

theorem checkPermission_default_deny:
  assumes "\<not> (\<exists>rule \<in> set PERMISSION_RULES.
              rule_role rule = role (user context) \<and>
              rule_resource rule = resource context \<and>
              action context \<in> set (actions rule) \<and>
              (case condition rule of None \<Rightarrow> True | Some cond \<Rightarrow> cond context))"
  shows "checkPermission context = False"
  using assms unfolding checkPermission_def Let_def checkPermission_loop_iff by auto

theorem checkPermission_default_deny_witness:
  "checkPermission
     (mk_context (broker_user\<lparr>role := ''guest''\<rparr>) BUILDING READ (Some ''building_123'')
        (Some office_metadata))
     = False \<and>
   checkPermission
     (mk_context (executive_user\<lparr>role := []\<rparr>) TENANT READ None None)
     = False \<and>
   checkPermission (mk_context broker_user MARKET READ None None) = False \<and>
   checkPermission
     (mk_context broker_user BUILDING DELETE (Some ''building_123'') (Some office_metadata))
     = False \<and>
   checkPermission
     (mk_context broker_user BUILDING READ (Some ''building_999'') (Some carolinas_metadata))
     = False"
  using
    checkPermission_default_deny
      [of "mk_context (broker_user\<lparr>role := ''guest''\<rparr>) BUILDING READ
             (Some ''building_123'') (Some office_metadata)"]
    checkPermission_default_deny
      [of "mk_context (executive_user\<lparr>role := []\<rparr>) TENANT READ None None"]
    checkPermission_default_deny [of "mk_context broker_user MARKET READ None None"]
    checkPermission_default_deny
      [of "mk_context broker_user BUILDING DELETE (Some ''building_123'')
             (Some office_metadata)"]
    checkPermission_default_deny
      [of "mk_context broker_user BUILDING READ (Some ''building_999'')
             (Some carolinas_metadata)"]
  by (simp add: PERMISSION_RULES_def mk_context_def broker_user_def executive_user_def
      office_metadata_def carolinas_metadata_def hasBuildingAccess_def hasRegionAccess_def
      hasPropertyTypeAccess_def metadata_regionId_def metadata_propertyType_def)

text \<open>
  C1 does not hold of the table: the rules headed "Admin - Universal access" cover the
  resource kinds building, tenant and admin only, and neither export nor share on the
  last two. An admin is denied reading a suite, which every other role may be allowed,
  and denied exporting tenants.
\<close>

theorem checkPermission_admin_denied:
  "checkPermission (mk_context admin_user SUITE READ (Some ''suite_1'') (Some office_metadata))
     = False \<and>
   checkPermission (mk_context admin_user TENANT ActionType.EXPORT None None) = False \<and>
   checkPermission (mk_context viewer_user SUITE READ (Some ''building_789'') None) = True"
  by (simp add: checkPermission_def PERMISSION_RULES_def mk_context_def admin_user_def
      viewer_user_def office_metadata_def hasBuildingAccess_def hasRegionAccess_def
      hasPropertyTypeAccess_def)

section \<open>Filters and per-item evaluation\<close>

text \<open>
  C2, as amended. For every identity that is not an admin and has no universal access,
  \<open>buildPermissionFilters\<close> includes the constraint on the resource id, restricted to
  \<open>assignedBuildings\<close>, exactly when \<open>assignedBuildings\<close> is non-empty and the resource
  kind is building; for every other resource kind, and when \<open>assignedBuildings\<close> is
  empty, it omits the constraint. For the resource kind building the filter agrees with
  \<open>hasBuildingAccess\<close>: when the region and property-type checks pass and a non-empty
  resource id is supplied, \<open>hasBuildingAccess\<close> holds exactly when the filter has no
  constraint on the id or the id is among the admitted ones.
\<close>

theorem buildPermissionFilters_allow_list:
  assumes "role u \<noteq> ''admin''" and "\<not> universalAccess u"
  shows "filter_id (buildPermissionFilters u res) =
           (if assignedBuildings u \<noteq> [] \<and> res = BUILDING
            then Some (assignedBuildings u) else None) \<and>
         (user context = u \<and> resourceId context = Some r \<and> r \<noteq> [] \<and>
          hasRegionAccess context \<and> hasPropertyTypeAccess context \<longrightarrow>
            hasBuildingAccess context =
              (case filter_id (buildPermissionFilters u BUILDING) of
                 None \<Rightarrow> True | Some ids \<Rightarrow> r \<in> set ids))"
  using assms by (auto simp: buildPermissionFilters_def Let_def hasBuildingAccess_def)

theorem buildPermissionFilters_allow_list_witness:
  "filter_id (buildPermissionFilters broker_user BUILDING)
     = Some [''building_123'', ''building_456''] \<and>
   filter_id (buildPermissionFilters (broker_user\<lparr>assignedBuildings := []\<rparr>) BUILDING) = None \<and>
   hasBuildingAccess
     (mk_context broker_user BUILDING READ (Some ''building_456'') (Some office_metadata))"
  using
    buildPermissionFilters_allow_list
      [of broker_user BUILDING
          "mk_context broker_user BUILDING READ (Some ''building_456'') (Some office_metadata)"
          "''building_456''"]
    buildPermissionFilters_allow_list
      [of "broker_user\<lparr>assignedBuildings := []\<rparr>" BUILDING
          "mk_context broker_user BUILDING READ None None" "''building_456''"]
  by (simp add: mk_context_def broker_user_def office_metadata_def hasRegionAccess_def
      hasPropertyTypeAccess_def metadata_regionId_def metadata_propertyType_def)

text \<open>
  C2 as stated fails for the resource kind suite: the broker is not an admin, has no
  universal access and has a non-empty \<open>assignedBuildings\<close>, and the filter has no
  constraint on the resource id.
\<close>

theorem buildPermissionFilters_suite_counterexample:
  "role broker_user \<noteq> ''admin'' \<and> \<not> universalAccess broker_user \<and>
   assignedBuildings broker_user \<noteq> [] \<and>
   filter_id (buildPermissionFilters broker_user SUITE) = None"
  by (simp add: buildPermissionFilters_def broker_user_def)


section \<open>The cache\<close>

lemma startsWith_append: "startsWith s p = (\<exists>r. s = p @ r)"
  by (induction s p rule: startsWith.induct) auto

lemma map_of_delete_fold:
  "map_of (fold (\<lambda>key c. if P key then AList.delete key c else c) ks cache) k =
     (if k \<in> set ks \<and> P k then None else map_of cache k)"
  by (induction ks arbitrary: cache) (auto simp: delete_conv)

lemma map_of_invalidateUser:
  "map_of (invalidateUser cache userId) k =
     (if startsWith k (userId @ '':'') then None else map_of cache k)"
proof (cases "k \<in> set (map fst cache)")
  case True
  then show ?thesis by (simp add: invalidateUser_def map_of_delete_fold)
next
  case False
  then have "map_of cache k = None" by (simp add: map_of_eq_None_iff)
  with False show ?thesis by (simp add: invalidateUser_def map_of_delete_fold)
qed

lemma getCacheKey_startsWith:
  "startsWith (getCacheKey context) (user_id (user context) @ '':'')"
  by (simp add: startsWith_append getCacheKey_def)

lemma colon_split_unique:
  "CHR '':'' \<notin> set a \<Longrightarrow> CHR '':'' \<notin> set b \<Longrightarrow>
   a @ CHR '':'' # r = b @ CHR '':'' # r' \<Longrightarrow> a = b"
proof (induction a arbitrary: b)
  case Nil
  then show ?case by (cases b) auto
next
  case (Cons x a)
  then show ?case by (cases b) auto
qed

lemma getCacheKey_other_user:
  assumes "id1 \<noteq> user_id (user context)" and "CHR '':'' \<notin> set id1"
    and "CHR '':'' \<notin> set (user_id (user context))"
  shows "\<not> startsWith (getCacheKey context) (id1 @ '':'')"
proof
  assume "startsWith (getCacheKey context) (id1 @ '':'')"
  then obtain r where "getCacheKey context = (id1 @ '':'') @ r"
    by (auto simp: startsWith_append)
  then have "user_id (user context) @ CHR '':'' #
               (ResourceType_str (resource context) @ '':'' @
                ActionType_str (action context) @ '':'' @
                (if truthy (resourceId context) then the (resourceId context) else []))
             = id1 @ CHR '':'' # r"
    by (simp add: getCacheKey_def)
  with assms(2,3) have "user_id (user context) = id1"
    using colon_split_unique by blast
  with assms(1) show False by simp
qed

lemma cache_get_miss:
  "map_of cache (getCacheKey context) = None \<Longrightarrow> cache_get cache now context = (None, cache)"
  by (simp add: cache_get_def)

lemma cache_get_after_set:
  assumes "getCacheKey context' = getCacheKey context" and "now - t0 \<le> TTL"
  shows "cache_get (cache_set cache t0 context D) now context' =
           (Some D, cache_set cache t0 context D)"
  using assms by (simp add: cache_get_def cache_set_def Let_def update_conv')

lemma cache_get_expired:
  assumes "map_of cache (getCacheKey context) = Some e" and "now - timestamp e > TTL"
  shows "cache_get cache now context = (None, AList.delete (getCacheKey context) cache)"
  using assms by (simp add: cache_get_def)

lemma cache_get_hit_fresh:
  assumes "cache_get cache now context = (Some d, cache')"
  shows "\<exists>e. map_of cache (getCacheKey context) = Some e \<and> result e = d \<and>
             now - timestamp e \<le> TTL"
  using assms by (auto simp: cache_get_def Let_def split: option.splits if_splits)

text \<open>
  C6. The time to live is five minutes, in milliseconds. After \<open>set\<close> has stored the
  decision \<open>D\<close> under the key of a context at time \<open>t0\<close>, a \<open>get\<close> for a context with
  the same key at a time \<open>now\<close> with \<open>now - t0 \<le> TTL\<close> returns \<open>D\<close> and leaves the
  cache as it is, and \<open>checkPermissionWithCache\<close> returns \<open>D\<close> whatever
  \<open>checkPermission\<close> would give for that context: the rules are not evaluated again. A
  \<open>get\<close> on an entry with \<open>now - timestamp > TTL\<close> returns a miss and deletes the entry.
  So whenever \<open>get\<close> returns a decision, it is that of an entry no older than the time
  to live.
\<close>

theorem cache_ttl_coherence:
  "TTL = 300000 \<and>
   (getCacheKey context' = getCacheKey context \<and> now - t0 \<le> TTL \<longrightarrow>
      cache_get (cache_set cache t0 context D) now context' =
        (Some D, cache_set cache t0 context D) \<and>
      checkPermissionWithCache (cache_set cache t0 context D) now now_set context' =
        (D, cache_set cache t0 context D)) \<and>
   (map_of cache (getCacheKey context) = Some e \<and> now - timestamp e > TTL \<longrightarrow>
      cache_get cache now context = (None, AList.delete (getCacheKey context) cache) \<and>
      map_of (AList.delete (getCacheKey context) cache) (getCacheKey context) = None) \<and>
   (cache_get cache now context = (Some d, cache') \<longrightarrow>
      (\<exists>e'. map_of cache (getCacheKey context) = Some e' \<and> result e' = d \<and>
            now - timestamp e' \<le> TTL))"
proof -
  have "TTL = 300000" by (simp add: TTL_def)
  moreover have "checkPermissionWithCache (cache_set cache t0 context D) now now_set context' =
        (D, cache_set cache t0 context D)"
    if "getCacheKey context' = getCacheKey context" and "now - t0 \<le> TTL"
    using that by (simp add: checkPermissionWithCache_def cache_get_after_set)
  moreover have "map_of (AList.delete (getCacheKey context) cache) (getCacheKey context) = None"
    by (simp add: delete_conv)
  ultimately show ?thesis
    using cache_get_after_set cache_get_expired cache_get_hit_fresh by blast
qed

theorem cache_ttl_coherence_witness:
  "checkPermission
     (mk_context (broker_user\<lparr>regions := []\<rparr>) BUILDING READ (Some ''building_123'') None)
     = False \<and>
   checkPermissionWithCache
     (cache_set [] 1000
        (mk_context broker_user BUILDING READ (Some ''building_123'') (Some office_metadata))
        True)
     301000 301000
     (mk_context (broker_user\<lparr>regions := []\<rparr>) BUILDING READ (Some ''building_123'') None)
     = (True,
        [(''u1:building:read:building_123'', \<lparr>result = True, timestamp = 1000\<rparr>)]) \<and>
   cache_get
     [(''u1:building:read:building_123'', \<lparr>result = True, timestamp = 1000\<rparr>)]
     301001
     (mk_context broker_user BUILDING READ (Some ''building_123'') (Some office_metadata))
     = (None, [])"
  using
    cache_ttl_coherence
      [of "mk_context (broker_user\<lparr>regions := []\<rparr>) BUILDING READ (Some ''building_123'') None"
          "mk_context broker_user BUILDING READ (Some ''building_123'') (Some office_metadata)"
          301000 1000 "[]" True 301000 "\<lparr>result = True, timestamp = 1000\<rparr>" True "[]"]
    cache_ttl_coherence
      [of "mk_context broker_user BUILDING READ (Some ''building_123'') (Some office_metadata)"
          "mk_context broker_user BUILDING READ (Some ''building_123'') (Some office_metadata)"
          301001 1000
          "[(''u1:building:read:building_123'', \<lparr>result = True, timestamp = 1000\<rparr>)]"
          True 301001 "\<lparr>result = True, timestamp = 1000\<rparr>" True "[]"]
  by (simp add: mk_context_def broker_user_def office_metadata_def getCacheKey_def
      cache_set_def checkPermission_def PERMISSION_RULES_def hasBuildingAccess_def
      hasRegionAccess_def metadata_regionId_def)

text \<open>
  C7. \<open>invalidateUser\<close> of a user id removes every entry whose key is the key of a
  context of that user; the next \<open>checkPermissionWithCache\<close> for such a context, at any
  time, returns what \<open>checkPermission\<close> computes for it and stores that decision.
\<close>

theorem invalidateUser_removes_user_entries:
  assumes "user_id (user context) = userId"
  shows "map_of (invalidateUser cache userId) (getCacheKey context) = None \<and>
     checkPermissionWithCache (invalidateUser cache userId) now_get now_set context =
       (checkPermission context,
        cache_set (invalidateUser cache userId) now_set context (checkPermission context))"
proof -
  have "map_of (invalidateUser cache userId) (getCacheKey context) = None"
    using assms getCacheKey_startsWith [of "context"] by (simp add: map_of_invalidateUser)
  then show ?thesis
    by (simp add: checkPermissionWithCache_def cache_get_miss Let_def)
qed

theorem invalidateUser_removes_user_entries_witness:
  "map_of example_cache
     (getCacheKey
        (mk_context broker_user BUILDING READ (Some ''building_999'') (Some office_metadata)))
     = Some \<lparr>result = True, timestamp = 1000\<rparr> \<and>
   map_of (invalidateUser example_cache ''u1'')
     (getCacheKey
        (mk_context broker_user BUILDING READ (Some ''building_999'') (Some office_metadata)))
     = None \<and>
   fst (checkPermissionWithCache (invalidateUser example_cache ''u1'') 2000 2000
          (mk_context broker_user BUILDING READ (Some ''building_999'') (Some office_metadata)))
     = False"
  using
    invalidateUser_removes_user_entries
      [of "mk_context broker_user BUILDING READ (Some ''building_999'') (Some office_metadata)"
          "''u1''" example_cache 2000 2000]
  by (simp add: example_cache_def mk_context_def broker_user_def viewer_user_def
      office_metadata_def getCacheKey_def cache_set_def checkPermission_def
      PERMISSION_RULES_def hasBuildingAccess_def hasRegionAccess_def
      hasPropertyTypeAccess_def metadata_regionId_def metadata_propertyType_def)

text \<open>
  C10. For two distinct user ids, neither containing a colon, \<open>invalidateUser\<close> of the
  first leaves the entry under every key of a context of the second as it was: present
  or not, with the same decision and the same timestamp.
\<close>

theorem invalidateUser_frame:
  assumes "id1 \<noteq> id2" and "CHR '':'' \<notin> set id1" and "CHR '':'' \<notin> set id2"
    and "user_id (user context) = id2"
  shows "map_of (invalidateUser cache id1) (getCacheKey context) =
           map_of cache (getCacheKey context)"
  using assms getCacheKey_other_user [of id1 "context"] by (simp add: map_of_invalidateUser)

theorem invalidateUser_frame_witness:
  "map_of (invalidateUser example_cache ''u1'')
     (getCacheKey (mk_context viewer_user SUITE READ (Some ''building_789'') None))
     = Some \<lparr>result = True, timestamp = 2000\<rparr>"
  using
    invalidateUser_frame
      [of "''u1''" "''u2''" "mk_context viewer_user SUITE READ (Some ''building_789'') None"
          example_cache]
  by (simp add: example_cache_def mk_context_def broker_user_def viewer_user_def
      getCacheKey_def cache_set_def)

section \<open>Escalation of suspicious denials\<close>

lemma escalations_append: "escalations (xs @ ys) = escalations xs + escalations ys"
  by (induction xs rule: escalations.induct) simp_all

text \<open>
  C8. \<open>logPermissionDenied\<close> calls \<open>alertSecurityTeam\<close> once when the resource kind is
  admin and the identity's role is not admin, and not at all otherwise: the number of
  escalations on the console grows by one or stays. A second identical denial raises an
  escalation of its own.
\<close>

theorem logPermissionDenied_escalations:
  "escalations (logPermissionDenied now context console) =
     escalations console +
     (if resource context = ResourceType.ADMIN \<and> role (user context) \<noteq> ''admin''
      then 1 else 0) \<and>
   escalations (logPermissionDenied now' context (logPermissionDenied now context console)) =
     escalations console +
     (if resource context = ResourceType.ADMIN \<and> role (user context) \<noteq> ''admin''
      then 2 else 0)"
  by (simp add: logPermissionDenied_def alertSecurityTeam_def isSupiciousActivity_def
      escalations_append Let_def)

theorem logPermissionDenied_escalations_witness:
  "escalations (logPermissionDenied 0 (mk_context viewer_user ResourceType.ADMIN READ None None) [])
     = 1 \<and>
   escalations
     (logPermissionDenied 1 (mk_context viewer_user ResourceType.ADMIN READ None None)
        (logPermissionDenied 0 (mk_context viewer_user ResourceType.ADMIN READ None None) []))
     = 2 \<and>
   escalations
     (logPermissionDenied 0 (mk_context admin_user ResourceType.ADMIN ActionType.EXPORT None None) [])
     = 0 \<and>
   escalations (logPermissionDenied 0 (mk_context viewer_user MARKET READ None None) []) = 0"
  using
    logPermissionDenied_escalations
      [of 0 "mk_context viewer_user ResourceType.ADMIN READ None None" "[]" 1]
    logPermissionDenied_escalations
      [of 0 "mk_context admin_user ResourceType.ADMIN ActionType.EXPORT None None" "[]" 1]
    logPermissionDenied_escalations
      [of 0 "mk_context viewer_user MARKET READ None None" "[]" 1]
  by (simp add: mk_context_def viewer_user_def admin_user_def)

end
